theory Spec2Isabelle
  imports Main
begin

section \<open>Activity timeline: data model\<close>

text \<open>
  The embedded unit is \<^verbatim>\<open>activity-timeline.tsx\<close>. Its components are JavaScript
  functions from a props object to an element tree. An exception raised while a component
  function runs is a value of \<open>js_error\<close>; a property that is \<^verbatim>\<open>undefined\<close> is \<open>None\<close>.
\<close>

datatype js_error = ReferenceError string | TypeError string

text \<open>\<^verbatim>\<open>Partial<User>\<close>: every property may be missing.\<close>

record user =
  name :: "string option"
  email :: "string option"
  user_id :: "string option"
  avatar :: "string option"
  presence :: "string option"
  status :: "string option"

text \<open>
  The three shapes of \<^verbatim>\<open>data\<close>: \<^verbatim>\<open>{ action }\<close>, \<^verbatim>\<open>{ comment }\<close> and
  \<^verbatim>\<open>{ field, oldValue?, value? }\<close>. The tag \<^verbatim>\<open>type\<close> is a string at run time and
  nothing ties it to the shape of \<^verbatim>\<open>data\<close>, so every property read goes through an
  accessor that yields \<open>None\<close> where the object has no such property.
\<close>

datatype activity_data =
  ActionData string
  | CommentData string
  | UpdateData string "string option" "string option"

fun data_comment :: "activity_data \<Rightarrow> string option" where
  "data_comment (CommentData c) = Some c"
| "data_comment _ = None"

fun data_field :: "activity_data \<Rightarrow> string option" where
  "data_field (UpdateData f ov v) = Some f"
| "data_field _ = None"

fun data_oldValue :: "activity_data \<Rightarrow> string option" where
  "data_oldValue (UpdateData f ov v) = ov"
| "data_oldValue _ = None"

fun data_value :: "activity_data \<Rightarrow> string option" where
  "data_value (UpdateData f ov v) = v"
| "data_value _ = None"

text \<open>
  An activity object. The declared type \<^verbatim>\<open>Activity\<close> has \<^verbatim>\<open>id\<close>, \<^verbatim>\<open>user\<close>,
  \<^verbatim>\<open>type\<close>, \<^verbatim>\<open>data\<close> and \<^verbatim>\<open>date\<close>. The item components destructure a property
  \<^verbatim>\<open>users\<close> from their props, which the declared type does not have: \<open>users\<close> is that
  property of the run-time object, \<open>None\<close> for an object built as the type declares.
\<close>

record activity =
  id' :: string
  user :: user
  users :: "user option"
  type' :: string
  data :: activity_data
  date :: int

type_synonym callback = string

datatype activities_input =
  Undefined
  | Null
  | Items "activity list"
  | NotAnArray

record ActivityTimelineProps =
  activities :: activities_input
  currentUser :: user
  onAddComment :: callback
  onDeleteComment :: "callback option"

section \<open>The feed: \<^verbatim>\<open>ActivityTimeline\<close>\<close>

text \<open>
  JSX creates an element (a component with its props) without calling the component.
  \<open>ActivityTimelineAction_elem key props\<close> is
  \<^verbatim>\<open><ActivityTimelineAction key={activity.id} {...activity} />\<close>, and so on.
\<close>

datatype element =
  ActivityTimelineAction_elem string activity
  | ActivityTimelineComment_elem string activity "callback option"
  | ActivityTimelineUpdate_elem string activity
  | ActivityTimelineAddComment_elem user callback

text \<open>
  A child of an element: \<^verbatim>\<open>undefined\<close>, an element, or an array of children.
  \<open>rendered_children\<close> is the order in which React visits them: arrays are flattened in
  place and \<^verbatim>\<open>undefined\<close> renders nothing.
\<close>

datatype child = Nothing | Elem element | Array "child list"

fun rendered_child :: "child \<Rightarrow> element list" where
  "rendered_child Nothing = []"
| "rendered_child (Elem e) = [e]"
| "rendered_child (Array cs) = concat (map rendered_child cs)"

definition rendered_children :: "child list \<Rightarrow> element list" where
  "rendered_children cs = concat (map rendered_child cs)"

text \<open>
  The callback of \<^verbatim>\<open>activities?.map\<close>: a \<^verbatim>\<open>switch\<close> on \<^verbatim>\<open>activity.type\<close> with
  three cases and no default, so the arrow function returns \<^verbatim>\<open>undefined\<close> for any
  other tag.
\<close>

definition dispatch :: "callback option \<Rightarrow> activity \<Rightarrow> child" where
  "dispatch onDelete activity =
     (if type' activity = ''action'' then
        Elem (ActivityTimelineAction_elem (id' activity) activity)
      else if type' activity = ''comment'' then
        Elem (ActivityTimelineComment_elem (id' activity) activity onDelete)
      else if type' activity = ''update'' then
        Elem (ActivityTimelineUpdate_elem (id' activity) activity)
      else Nothing)"

text \<open>
  \<^verbatim>\<open>activities?.map(...)\<close>: \<^verbatim>\<open>undefined\<close> when \<^verbatim>\<open>activities\<close> is \<^verbatim>\<open>null\<close> or
  \<^verbatim>\<open>undefined\<close>, the mapped array for an array, and a TypeError for a value with no
  callable \<^verbatim>\<open>map\<close>.
\<close>

definition optional_map :: "activities_input \<Rightarrow> (activity \<Rightarrow> child) \<Rightarrow> js_error + child" where
  "optional_map as f =
     (case as of
        Undefined \<Rightarrow> Inr Nothing
      | Null \<Rightarrow> Inr Nothing
      | Items xs \<Rightarrow> Inr (Array (map f xs))
      | NotAnArray \<Rightarrow> Inl (TypeError ''activities?.map is not a function''))"

text \<open>The children of \<^verbatim>\<open><AnimatePresence>\<close> that \<^verbatim>\<open>ActivityTimeline\<close> returns.\<close>

definition ActivityTimeline :: "ActivityTimelineProps \<Rightarrow> js_error + child list" where
  "ActivityTimeline props =
     (case optional_map (activities props) (dispatch (onDeleteComment props)) of
        Inl e \<Rightarrow> Inl e
      | Inr mapped \<Rightarrow>
          Inr [mapped,
               Elem (ActivityTimelineAddComment_elem (currentUser props) (onAddComment props))])"

fun is_composer :: "element \<Rightarrow> bool" where
  "is_composer (ActivityTimelineAddComment_elem u f) = True"
| "is_composer _ = False"

text \<open>
  The elements \<^verbatim>\<open>ActivityTimeline\<close> returns under \<^verbatim>\<open><AnimatePresence>\<close>, flattened
  in order. No component has been called yet: \<open>render_feed\<close> below does that.
\<close>

definition ActivityTimeline_children :: "ActivityTimelineProps \<Rightarrow> js_error + element list" where
  "ActivityTimeline_children props =
     (case ActivityTimeline props of
        Inl e \<Rightarrow> Inl e
      | Inr cs \<Rightarrow> Inr (rendered_children cs))"

section \<open>Evaluating a component body\<close>

text \<open>
  A failing step ends the evaluation of the body with its exception; \<open>bind\<close> sequences the
  steps in the order the source evaluates them.
\<close>

definition bind :: "js_error + 'a \<Rightarrow> ('a \<Rightarrow> js_error + 'b) \<Rightarrow> js_error + 'b" where
  "bind m k = (case m of Inl e \<Rightarrow> Inl e | Inr v \<Rightarrow> k v)"

text \<open>
  The identifiers of a function body that hold a user object, with their values. The module
  binds no such identifier (\<^verbatim>\<open>User\<close> is imported as a type only), so reading an
  identifier that the body does not bind is a ReferenceError.
\<close>

type_synonym scope = "(string \<times> user option) list"

definition read_identifier :: "scope \<Rightarrow> string \<Rightarrow> js_error + user option" where
  "read_identifier sc x =
     (case map_of sc x of
        None \<Rightarrow> Inl (ReferenceError (x @ '' is not defined''))
      | Some v \<Rightarrow> Inr v)"

text \<open>\<^verbatim>\<open>obj.prop\<close>: a TypeError when \<^verbatim>\<open>obj\<close> is \<^verbatim>\<open>undefined\<close>.\<close>

definition member :: "user option \<Rightarrow> (user \<Rightarrow> string option) \<Rightarrow> js_error + string option" where
  "member obj prop =
     (case obj of
        None \<Rightarrow> Inl (TypeError ''Cannot read properties of undefined'')
      | Some u \<Rightarrow> Inr (prop u))"

text \<open>A string is truthy when it is defined and not empty.\<close>

definition truthy :: "string option \<Rightarrow> bool" where
  "truthy v = (case v of None \<Rightarrow> False | Some s \<Rightarrow> s \<noteq> [])"

text \<open>What a JSX expression child \<^verbatim>\<open>{v}\<close> shows: nothing for \<^verbatim>\<open>undefined\<close>.\<close>

definition shown :: "string option \<Rightarrow> string" where
  "shown v = (case v of None \<Rightarrow> [] | Some s \<Rightarrow> s)"

section \<open>The item components\<close>

text \<open>\<^verbatim>\<open>ActivityUser\<close>: \<^verbatim>\<open>user.name || user.email || user.id\<close>, read left to right.\<close>

definition ActivityUser :: "user option \<Rightarrow> js_error + string option" where
  "ActivityUser user_prop =
     bind (member user_prop name) (\<lambda>n.
       if truthy n then Inr n
       else bind (member user_prop email) (\<lambda>e.
         if truthy e then Inr e
         else member user_prop user_id))"

datatype icon =
  PersonaAvatar "string option" "string option" string "string option"
  | UpdateIcon_elem activity_data

datatype update_icon = StatusBadge "string option" | TimelineDot

text \<open>\<^verbatim>\<open>UpdateIcon\<close>, called with \<^verbatim>\<open>{...data}\<close> as its props.\<close>

definition UpdateIcon :: "activity_data \<Rightarrow> update_icon" where
  "UpdateIcon props =
     (if data_field props = Some ''status'' then StatusBadge (data_value props)
      else TimelineDot)"

text \<open>
  The children of \<^verbatim>\<open><ActivityText>\<close>: literal text, an expression in braces, or an
  \<^verbatim>\<open><ActivityUser user={...} />\<close> element.
\<close>

datatype inline = Str string | Expr "string option" | ActivityUser_elem "user option"

text \<open>\<^verbatim>\<open><ActivityLink href={...}>\<close> around \<^verbatim>\<open><ActivityTimelineDate date={date} />\<close>.\<close>

datatype link = ActivityLink string int

fun href :: "link \<Rightarrow> string" where
  "href (ActivityLink h d) = h"

text \<open>The closure \<^verbatim>\<open>() => onDelete?.(id)\<close> with the values it captures.\<close>

datatype thunk = Call_onDelete "callback option" string

record confirm_options =
  title :: string
  body :: string
  colorScheme :: string
  onConfirm :: thunk

text \<open>The closure \<^verbatim>\<open>() => modals.confirm({...})\<close>.\<close>

datatype click_handler = Modals_confirm confirm_options

record menu_item =
  label :: string
  onClick :: click_handler

datatype content =
  Sentence "inline list" link
  | CommentCard "user option" link "menu_item list" "string option"

record ActivityTimelineItem_props =
  item_id :: "string option"
  icon :: icon
  iconOffset :: "string option"
  children :: content

record timeline_item =
  anchor :: "string option"
  timeline_icon :: icon
  timeline_icon_mt :: string
  timeline_content :: content

text \<open>\<^verbatim>\<open>ActivityTimelineItem\<close>: \<^verbatim>\<open>iconOffset\<close> defaults to \<^verbatim>\<open>'-2px'\<close>.\<close>

definition ActivityTimelineItem :: "ActivityTimelineItem_props \<Rightarrow> timeline_item" where
  "ActivityTimelineItem props =
     \<lparr>anchor = item_id props,
      timeline_icon = icon props,
      timeline_icon_mt = (case iconOffset props of None \<Rightarrow> ''-2px'' | Some v \<Rightarrow> v),
      timeline_content = children props\<rparr>"

text \<open>
  \<^verbatim>\<open>ActivityTimelineAction\<close>. The body binds \<^verbatim>\<open>users\<close> and then reads
  \<^verbatim>\<open>user.avatar\<close>, \<^verbatim>\<open>user.name\<close> and \<^verbatim>\<open>user.status\<close> for the avatar.
\<close>

definition ActivityTimelineAction :: "activity \<Rightarrow> js_error + timeline_item" where
  "ActivityTimelineAction props =
     (let sc = [(''users'', users props)] in
      bind (read_identifier sc ''user'') (\<lambda>user_v.
      bind (member user_v avatar) (\<lambda>src.
      bind (member user_v name) (\<lambda>nm.
      bind (member user_v status) (\<lambda>pres.
      bind (read_identifier sc ''users'') (\<lambda>users_v.
        Inr (ActivityTimelineItem
          \<lparr>item_id = Some (''action-'' @ id' props),
           icon = PersonaAvatar src nm ''2xs'' pres,
           iconOffset = None,
           children =
             Sentence [ActivityUser_elem users_v, Str '' created the contact.'']
               (ActivityLink (''#action-'' @ id' props) (date props))\<rparr>)))))))"

text \<open>\<^verbatim>\<open>` from ${data.oldValue}`\<close> guarded by \<^verbatim>\<open>data.oldValue &&\<close>.\<close>

definition from_clause :: "string option \<Rightarrow> string option" where
  "from_clause oldValue =
     (if truthy oldValue then Some ('' from '' @ shown oldValue) else oldValue)"

text \<open>\<^verbatim>\<open>ActivityTimelineUpdate\<close>.\<close>

definition ActivityTimelineUpdate :: "activity \<Rightarrow> js_error + timeline_item" where
  "ActivityTimelineUpdate props =
     (let sc = [(''users'', users props)] in
      bind (read_identifier sc ''users'') (\<lambda>users_v.
        Inr (ActivityTimelineItem
          \<lparr>item_id = Some (''update-'' @ id' props),
           icon = UpdateIcon_elem (data props),
           iconOffset = None,
           children =
             Sentence
               [ActivityUser_elem users_v, Str '' changed '', Expr (data_field (data props)),
                Str '' to '', Expr (data_value (data props)),
                Expr (from_clause (data_oldValue (data props))), Str ''.'']
               (ActivityLink (''#update-'' @ id' props) (date props))\<rparr>)))"

text \<open>
  \<^verbatim>\<open>ActivityTimelineComment\<close>, with the \<^verbatim>\<open>onDelete\<close> prop beside the activity. The
  overflow menu and its one item are part of the tree whatever \<^verbatim>\<open>onDelete\<close> is.
\<close>

definition ActivityTimelineComment :: "activity \<Rightarrow> callback option \<Rightarrow> js_error + timeline_item" where
  "ActivityTimelineComment props onDelete =
     (let sc = [(''users'', users props)] in
      bind (read_identifier sc ''users'') (\<lambda>users_v.
      bind (member users_v avatar) (\<lambda>src.
      bind (member users_v name) (\<lambda>nm.
      bind (member users_v presence) (\<lambda>pres.
        Inr (ActivityTimelineItem
          \<lparr>item_id = Some (''comment-'' @ id' props),
           icon = PersonaAvatar src nm ''xs'' pres,
           iconOffset = Some ''2px'',
           children =
             CommentCard users_v
               (ActivityLink (''#action-'' @ id' props) (date props))
               [\<lparr>label = ''Delete'',
                 onClick = Modals_confirm
                   \<lparr>title = ''Are you sure you want to delete this comment?'',
                    body = ''This action cannot be undone.'',
                    colorScheme = ''red'',
                    onConfirm = Call_onDelete onDelete (id' props)\<rparr>\<rparr>]
               (data_comment (data props))\<rparr>))))))"

text \<open>Rendering the inline children to the text they show, left to right.\<close>

fun inline_text :: "inline \<Rightarrow> js_error + string" where
  "inline_text (Str s) = Inr s"
| "inline_text (Expr v) = Inr (shown v)"
| "inline_text (ActivityUser_elem u) = bind (ActivityUser u) (\<lambda>v. Inr (shown v))"

fun inlines_text :: "inline list \<Rightarrow> js_error + string" where
  "inlines_text [] = Inr []"
| "inlines_text (x # xs) =
     bind (inline_text x) (\<lambda>a. bind (inlines_text xs) (\<lambda>b. Inr (a @ b)))"

fun content_inlines :: "content \<Rightarrow> inline list" where
  "content_inlines (Sentence xs l) = xs"
| "content_inlines (CommentCard u l m h) = [ActivityUser_elem u]"

fun content_link :: "content \<Rightarrow> link" where
  "content_link (Sentence xs l) = l"
| "content_link (CommentCard u l m h) = l"

fun content_menu :: "content \<Rightarrow> menu_item list" where
  "content_menu (Sentence xs l) = []"
| "content_menu (CommentCard u l m h) = m"

text \<open>The text an item shows once its \<^verbatim>\<open>ActivityUser\<close> child has been rendered too.\<close>

definition rendered_text :: "js_error + timeline_item \<Rightarrow> js_error + string" where
  "rendered_text r = bind r (\<lambda>item. inlines_text (content_inlines (timeline_content item)))"

text \<open>The one item of a comment's overflow menu, as \<^verbatim>\<open>ActivityTimelineComment\<close> builds it.\<close>

definition delete_item :: "callback option \<Rightarrow> string \<Rightarrow> menu_item" where
  "delete_item onDelete i =
     \<lparr>label = ''Delete'',
      onClick = Modals_confirm
        \<lparr>title = ''Are you sure you want to delete this comment?'',
         body = ''This action cannot be undone.'',
         colorScheme = ''red'',
         onConfirm = Call_onDelete onDelete i\<rparr>\<rparr>"

text \<open>The labels of the menu items an item offers.\<close>

definition offered_actions :: "js_error + timeline_item \<Rightarrow> js_error + string list" where
  "offered_actions r = bind r (\<lambda>item. Inr (map label (content_menu (timeline_content item))))"

section \<open>The deletion flow of a comment\<close>

text \<open>
  What the user interface holds while the feed is on screen: the confirmation prompts that
  are open, the newest first, and the calls made so far to the \<^verbatim>\<open>onDeleteComment\<close>
  callback, each with its argument.
\<close>

record ui =
  open_dialogs :: "confirm_options list"
  onDelete_calls :: "(callback \<times> string) list"

text \<open>
  Modelled from the spec: the confirmation-dialog host (\<^verbatim>\<open>useModals\<close> of
  \<^verbatim>\<open>@saas-ui/react\<close>, an external collaborator). \<^verbatim>\<open>modals.confirm(options)\<close> shows a
  prompt and calls nothing; confirming the prompt closes it and runs its \<^verbatim>\<open>onConfirm\<close>;
  dismissing it closes it and makes no external call.
\<close>

definition modals_confirm :: "confirm_options \<Rightarrow> ui \<Rightarrow> ui" where
  "modals_confirm options w = w\<lparr>open_dialogs := options # open_dialogs w\<rparr>"

text \<open>Running \<^verbatim>\<open>() => onDelete?.(id)\<close>: no call when \<^verbatim>\<open>onDelete\<close> is undefined.\<close>

fun run_thunk :: "thunk \<Rightarrow> ui \<Rightarrow> ui" where
  "run_thunk (Call_onDelete None i) w = w"
| "run_thunk (Call_onDelete (Some f) i) w = w\<lparr>onDelete_calls := onDelete_calls w @ [(f, i)]\<rparr>"

fun run_click :: "click_handler \<Rightarrow> ui \<Rightarrow> ui" where
  "run_click (Modals_confirm options) w = modals_confirm options w"

text \<open>Modelled from the spec: the user's answer to the newest prompt of the host.\<close>

definition confirm_dialog :: "ui \<Rightarrow> ui" where
  "confirm_dialog w =
     (case open_dialogs w of
        [] \<Rightarrow> w
      | d # ds \<Rightarrow> run_thunk (onConfirm d) (w\<lparr>open_dialogs := ds\<rparr>))"

definition cancel_dialog :: "ui \<Rightarrow> ui" where
  "cancel_dialog w =
     (case open_dialogs w of
        [] \<Rightarrow> w
      | d # ds \<Rightarrow> w\<lparr>open_dialogs := ds\<rparr>)"

datatype ui_event = Select menu_item | Confirm | Cancel

fun ui_step :: "ui \<Rightarrow> ui_event \<Rightarrow> ui" where
  "ui_step w (Select m) = run_click (onClick m) w"
| "ui_step w Confirm = confirm_dialog w"
| "ui_step w Cancel = cancel_dialog w"

definition ui_run :: "ui_event list \<Rightarrow> ui \<Rightarrow> ui" where
  "ui_run evs w = foldl ui_step w evs"


section \<open>The comment composer\<close>

text \<open>The draft: \<^verbatim>\<open>interface Comment { files?: FileList; comment: string }\<close>.\<close>

record Comment =
  files :: "string list option"
  comment :: string

definition empty_draft :: Comment where
  "empty_draft = \<lparr>files = None, comment = []\<rparr>"

text \<open>The form handle \<^verbatim>\<open>UseFormReturn<Comment>\<close> behind \<^verbatim>\<open>formRef\<close>.\<close>

record form =
  form_values :: Comment

text \<open>
  Modelled from the spec: \<^verbatim>\<open>reset()\<close> of the external form handle. The
  \<^verbatim>\<open><Form>\<close> of the composer is given no default values, and a reset clears the
  draft, both text and any staged attachments.
\<close>

definition reset :: "form \<Rightarrow> form" where
  "reset f = f\<lparr>form_values := empty_draft\<rparr>"

text \<open>
  The state of one composer: \<open>formRef\<close> is \<^verbatim>\<open>formRef.current\<close> (\<open>None\<close> for
  \<^verbatim>\<open>null\<close>), \<open>onSubmit_calls\<close> lists the calls made to the \<^verbatim>\<open>onSubmit\<close> prop,
  \<open>awaiting\<close> counts the invocations of the submit handler that are suspended at their
  \<^verbatim>\<open>await\<close>, and \<open>rejected\<close> lists the reasons with which the handler's own promise
  rejected.
\<close>

record composer =
  formRef :: "form option"
  onSubmit_calls :: "(callback \<times> Comment) list"
  awaiting :: nat
  rejected :: "string list"

definition draft :: "composer \<Rightarrow> Comment option" where
  "draft s = map_option form_values (formRef s)"

datatype settlement = Resolves | Rejects string

text \<open>
  The submit handler \<^verbatim>\<open>async (data) => { await onSubmit(data); formRef.current?.reset() }\<close>
  in its two halves. \<open>handler_begin\<close> runs up to the \<^verbatim>\<open>await\<close>: it calls
  \<^verbatim>\<open>onSubmit(data)\<close> and suspends. \<open>handler_settle\<close> resumes one suspended invocation
  when the promise settles: after a resolution it runs \<^verbatim>\<open>formRef.current?.reset()\<close>;
  after a rejection the \<^verbatim>\<open>await\<close> throws and the rest of the body is skipped.
\<close>

definition handler_begin :: "callback \<Rightarrow> Comment \<Rightarrow> composer \<Rightarrow> composer" where
  "handler_begin onSubmit data_v s =
     s\<lparr>onSubmit_calls := onSubmit_calls s @ [(onSubmit, data_v)],
       awaiting := Suc (awaiting s)\<rparr>"

definition handler_settle :: "settlement \<Rightarrow> composer \<Rightarrow> composer" where
  "handler_settle r s =
     (if awaiting s = 0 then s
      else
        (case r of
           Resolves \<Rightarrow>
             s\<lparr>formRef := map_option reset (formRef s), awaiting := awaiting s - 1\<rparr>
         | Rejects e \<Rightarrow>
             s\<lparr>awaiting := awaiting s - 1, rejected := rejected s @ [e]\<rparr>))"

datatype composer_event = Submit Comment | Settle settlement

fun composer_step :: "callback \<Rightarrow> composer \<Rightarrow> composer_event \<Rightarrow> composer" where
  "composer_step onSubmit s (Submit d) = handler_begin onSubmit d s"
| "composer_step onSubmit s (Settle r) = handler_settle r s"

definition composer_run :: "callback \<Rightarrow> composer_event list \<Rightarrow> composer \<Rightarrow> composer" where
  "composer_run onSubmit evs s = foldl (composer_step onSubmit) s evs"

fun submitted :: "composer_event list \<Rightarrow> Comment list" where
  "submitted [] = []"
| "submitted (Submit d # evs) = d # submitted evs"
| "submitted (Settle r # evs) = submitted evs"

text \<open>A freshly mounted composer: the form is attached and empty, nothing has been called.\<close>

definition mounted :: composer where
  "mounted = \<lparr>formRef = Some \<lparr>form_values = empty_draft\<rparr>, onSubmit_calls = [],
     awaiting = 0, rejected = []\<rparr>"

text \<open>Blank text: nothing but spaces, tabs and line breaks.\<close>

definition is_blank :: "string \<Rightarrow> bool" where
  "is_blank s = list_all (\<lambda>c. c = CHR '' '' \<or> c = CHR 0x09 \<or> c = CHR 0x0A \<or> c = CHR 0x0D) s"

section \<open>Rendering the feed\<close>

text \<open>
  \<^verbatim>\<open>ActivityTimelineAddComment\<close> destructures \<^verbatim>\<open>onSubmit\<close> and \<^verbatim>\<open>user\<close> and reads
  \<^verbatim>\<open>user.avatar\<close>, \<^verbatim>\<open>user.name\<close> and \<^verbatim>\<open>user.presence\<close> of the user it is given.
\<close>

datatype node =
  Item_node timeline_item string
  | Composer_node icon callback

definition ActivityTimelineAddComment :: "user \<Rightarrow> callback \<Rightarrow> js_error + node" where
  "ActivityTimelineAddComment user_prop onSubmit =
     Inr (Composer_node
       (PersonaAvatar (avatar user_prop) (name user_prop) ''xs'' (presence user_prop))
       onSubmit)"

text \<open>
  Rendering an item goes on into its \<^verbatim>\<open>ActivityUser\<close> child; the node keeps the item
  with the text it shows.
\<close>

definition render_item :: "timeline_item \<Rightarrow> js_error + node" where
  "render_item item =
     bind (inlines_text (content_inlines (timeline_content item)))
       (\<lambda>t. Inr (Item_node item t))"

text \<open>
  Rendering calls the component of every element, in order. An exception raised by a
  component is caught nowhere in the unit, so it ends the rendering of the whole feed.
\<close>

fun render_element :: "element \<Rightarrow> js_error + node" where
  "render_element (ActivityTimelineAction_elem k props) =
     bind (ActivityTimelineAction props) render_item"
| "render_element (ActivityTimelineComment_elem k props onDelete) =
     bind (ActivityTimelineComment props onDelete) render_item"
| "render_element (ActivityTimelineUpdate_elem k props) =
     bind (ActivityTimelineUpdate props) render_item"
| "render_element (ActivityTimelineAddComment_elem u onSubmit) =
     ActivityTimelineAddComment u onSubmit"

fun render_all :: "element list \<Rightarrow> js_error + node list" where
  "render_all [] = Inr []"
| "render_all (e # es) =
     bind (render_element e) (\<lambda>n. bind (render_all es) (\<lambda>ns. Inr (n # ns)))"

definition render_feed :: "ActivityTimelineProps \<Rightarrow> js_error + node list" where
  "render_feed props = bind (ActivityTimeline_children props) render_all"

fun is_composer_node :: "node \<Rightarrow> bool" where
  "is_composer_node (Composer_node i f) = True"
| "is_composer_node (Item_node item t) = False"

section \<open>Submitting from the composer\<close>

text \<open>
  The composer on screen: the state of its submit handler, and \<^verbatim>\<open>submitRef.current\<close>
  (\<open>None\<close> for \<^verbatim>\<open>null\<close>).
\<close>

datatype button = SubmitButton

record composer_view =
  handler_state :: composer
  submitRef :: "button option"

text \<open>
  Modelled from the spec: the external \<^verbatim>\<open><Form>\<close> and \<^verbatim>\<open><SubmitButton>\<close> of
  \<^verbatim>\<open>@saas-ui/react\<close>, which are not in the sources. A click of the submit button
  while a submission is in flight is a no-op, not queued; otherwise the form calls its
  \<^verbatim>\<open>onSubmit\<close> prop, the handler of the composer, once with the current draft.
\<close>

definition SubmitButton_click :: "callback \<Rightarrow> composer_view \<Rightarrow> composer_view" where
  "SubmitButton_click onSubmit v =
     (if 0 < awaiting (handler_state v) then v
      else
        (case formRef (handler_state v) of
           None \<Rightarrow> v
         | Some fm \<Rightarrow>
             v\<lparr>handler_state := handler_begin onSubmit (form_values fm) (handler_state v)\<rparr>))"

text \<open>
  \<^verbatim>\<open>onKeyDown\<close> of the editor field:
  \<^verbatim>\<open>if (e.key === 'Enter' && e.metaKey) { submitRef.current?.click() }\<close>.
\<close>

definition onKeyDown :: "callback \<Rightarrow> string \<Rightarrow> bool \<Rightarrow> composer_view \<Rightarrow> composer_view" where
  "onKeyDown onSubmit key metaKey v =
     (if key = ''Enter'' \<and> metaKey then
        (case submitRef v of
           None \<Rightarrow> v
         | Some b \<Rightarrow> SubmitButton_click onSubmit v)
      else v)"

text \<open>
  What can happen to a composer on screen: the user clicks the submit button, the user
  presses a key in the editor, or the promise of a submission in flight settles.
\<close>

datatype user_event = Click | KeyDown string bool | Settled settlement

fun user_step :: "callback \<Rightarrow> composer_view \<Rightarrow> user_event \<Rightarrow> composer_view" where
  "user_step onSubmit v Click = SubmitButton_click onSubmit v"
| "user_step onSubmit v (KeyDown key metaKey) = onKeyDown onSubmit key metaKey v"
| "user_step onSubmit v (Settled r) = v\<lparr>handler_state := handler_settle r (handler_state v)\<rparr>"

definition user_run :: "callback \<Rightarrow> user_event list \<Rightarrow> composer_view \<Rightarrow> composer_view" where
  "user_run onSubmit evs v = foldl (user_step onSubmit) v evs"

fun is_attempt :: "user_event \<Rightarrow> bool" where
  "is_attempt Click = True"
| "is_attempt (KeyDown key metaKey) = True"
| "is_attempt (Settled r) = False"

section \<open>Example values\<close>

definition ada :: user where
  "ada = \<lparr>name = Some ''Ada'', email = None, user_id = None, avatar = None,
     presence = None, status = None\<rparr>"

text \<open>A comment as the data layer delivers it, with a \<^verbatim>\<open>users\<close> property.\<close>

definition comment_3 :: activity where
  "comment_3 = \<lparr>id' = ''3'', user = ada, users = Some ada, type' = ''comment'',
     data = CommentData ''<p>hello</p>'', date = 0\<rparr>"

definition idle :: ui where
  "idle = \<lparr>open_dialogs = [], onDelete_calls = []\<rparr>"

definition composing :: composer where
  "composing = \<lparr>formRef = Some \<lparr>form_values = \<lparr>files = Some [''a.png''], comment = ''hello''\<rparr>\<rparr>,
     onSubmit_calls = [], awaiting = 0, rejected = []\<rparr>"

section \<open>The feed: properties\<close>

lemma dispatch_not_composer:
  "filter is_composer (rendered_child (dispatch od a)) = []"
  by (simp add: dispatch_def)

lemma dispatched_no_composer:
  "filter is_composer (concat (map (rendered_child \<circ> dispatch od) xs)) = []"
  by (induction xs) (simp_all add: dispatch_not_composer)

lemma ActivityTimeline_children_Items:
  "ActivityTimeline_children (props\<lparr>activities := Items xs\<rparr>) =
     Inr (concat (map (rendered_child \<circ> dispatch (onDeleteComment props)) xs)
          @ [ActivityTimelineAddComment_elem (currentUser props) (onAddComment props)])"
  by (simp add: ActivityTimeline_children_def ActivityTimeline_def optional_map_def
      rendered_children_def comp_def)

text \<open>
  Before any component is called: for every array of activities, the empty one included,
  the children that \<^verbatim>\<open>ActivityTimeline\<close> returns hold the composer element exactly
  once, as the last child, after the elements dispatched for the activities in their order.
\<close>

lemma returned_children_composer_last:
  "\<exists>es. ActivityTimeline_children (props\<lparr>activities := Items xs\<rparr>) = Inr es
     \<and> length (filter is_composer es) = 1
     \<and> last es = ActivityTimelineAddComment_elem (currentUser props) (onAddComment props)
     \<and> butlast es = concat (map (rendered_child \<circ> dispatch (onDeleteComment props)) xs)"
  by (simp add: ActivityTimeline_children_Items dispatched_no_composer)

text \<open>
  C2. An activity whose \<^verbatim>\<open>type\<close> is none of \<^verbatim>\<open>action\<close>, \<^verbatim>\<open>comment\<close>,
  \<^verbatim>\<open>update\<close> is dispatched to nothing: the callback returns \<^verbatim>\<open>undefined\<close>, no
  exception is raised, and the feed that contains the activity has the same children as
  the feed without it.
\<close>

theorem unknown_type_renders_nothing:
  assumes "type' a \<noteq> ''action''" and "type' a \<noteq> ''comment''" and "type' a \<noteq> ''update''"
  shows "dispatch od a = Nothing
     \<and> rendered_child (dispatch od a) = []
     \<and> (\<exists>es. ActivityTimeline_children (props\<lparr>activities := Items (xs @ a # ys)\<rparr>) = Inr es
            \<and> ActivityTimeline_children (props\<lparr>activities := Items (xs @ ys)\<rparr>) = Inr es)"
proof -
  have d: "dispatch od' a = Nothing" for od'
    using assms by (simp add: dispatch_def)
  show ?thesis
    by (simp add: d ActivityTimeline_children_Items)
qed

theorem unknown_type_renders_nothing_witness:
  "dispatch None \<lparr>id' = ''7'', user = \<lparr>name = Some ''Ada'', email = None, user_id = None,
        avatar = None, presence = None, status = None\<rparr>, users = None, type' = ''archive'',
        data = ActionData ''archived'', date = 0\<rparr> = Nothing
   \<and> ActivityTimeline_children \<lparr>activities = Items [\<lparr>id' = ''7'',
        user = \<lparr>name = Some ''Ada'', email = None, user_id = None,
        avatar = None, presence = None, status = None\<rparr>, users = None, type' = ''archive'',
        data = ActionData ''archived'', date = 0\<rparr>],
        currentUser = \<lparr>name = Some ''Bob'', email = None, user_id = None,
        avatar = None, presence = None, status = None\<rparr>,
        onAddComment = ''add'', onDeleteComment = None\<rparr>
     = Inr [ActivityTimelineAddComment_elem \<lparr>name = Some ''Bob'', email = None, user_id = None,
        avatar = None, presence = None, status = None\<rparr> ''add'']"
  using unknown_type_renders_nothing [where a =
      "\<lparr>id' = ''7'', user = \<lparr>name = Some ''Ada'', email = None, user_id = None,
        avatar = None, presence = None, status = None\<rparr>, users = None, type' = ''archive'',
        data = ActionData ''archived'', date = 0\<rparr>"
      and od = None and xs = "[]" and ys = "[]" and props =
      "\<lparr>activities = Null,
        currentUser = \<lparr>name = Some ''Bob'', email = None, user_id = None,
        avatar = None, presence = None, status = None\<rparr>,
        onAddComment = ''add'', onDeleteComment = None\<rparr>"]
  by (simp add: ActivityTimeline_children_def ActivityTimeline_def optional_map_def
      rendered_children_def)


section \<open>The item components: properties\<close>

text \<open>
  \<^verbatim>\<open>ActivityTimelineAction\<close> raises for every props object: its first read is of the
  identifier \<^verbatim>\<open>user\<close>, which the body does not bind.
\<close>

lemma ActivityTimelineAction_raises:
  "ActivityTimelineAction props = Inl (ReferenceError ''user is not defined'')"
  by (simp add: ActivityTimelineAction_def read_identifier_def bind_def)

lemma update_anchor_and_link:
  "\<exists>item. ActivityTimelineUpdate props = Inr item
     \<and> anchor item = Some (''update-'' @ id' props)
     \<and> href (content_link (timeline_content item)) = ''#update-'' @ id' props"
  by (simp add: ActivityTimelineUpdate_def read_identifier_def bind_def ActivityTimelineItem_def)

lemma ActivityTimelineComment_users:
  assumes "users props = Some u"
  shows "ActivityTimelineComment props od =
     Inr \<lparr>anchor = Some (''comment-'' @ id' props),
          timeline_icon = PersonaAvatar (avatar u) (name u) ''xs'' (presence u),
          timeline_icon_mt = ''2px'',
          timeline_content =
            CommentCard (Some u) (ActivityLink (''#action-'' @ id' props) (date props))
              [\<lparr>label = ''Delete'',
                onClick = Modals_confirm
                  \<lparr>title = ''Are you sure you want to delete this comment?'',
                   body = ''This action cannot be undone.'',
                   colorScheme = ''red'',
                   onConfirm = Call_onDelete od (id' props)\<rparr>\<rparr>]
              (data_comment (data props))\<rparr>"
  using assms
  by (simp add: ActivityTimelineComment_def read_identifier_def bind_def member_def
      ActivityTimelineItem_def)

lemma ActivityTimelineComment_no_users:
  assumes "users props = None"
  shows "ActivityTimelineComment props od = Inl (TypeError ''Cannot read properties of undefined'')"
  using assms
  by (simp add: ActivityTimelineComment_def read_identifier_def bind_def member_def)

lemma ActivityTimelineComment_Inr:
  assumes "ActivityTimelineComment props od = Inr item"
  shows "\<exists>u. users props = Some u"
proof (cases "users props")
  case None
  then show ?thesis
    using assms by (simp add: ActivityTimelineComment_no_users)
next
  case (Some u)
  then show ?thesis by simp
qed

lemma comment_anchor_and_link:
  assumes "ActivityTimelineComment props od = Inr item"
  shows "anchor item = Some (''comment-'' @ id' props)
     \<and> href (content_link (timeline_content item)) = ''#action-'' @ id' props"
proof -
  obtain u where "users props = Some u"
    using assms ActivityTimelineComment_Inr by blast
  then show ?thesis
    using assms by (auto simp add: ActivityTimelineComment_users)
qed

lemma update_text_no_users:
  assumes "users props = None"
  shows "rendered_text (ActivityTimelineUpdate props)
     = Inl (TypeError ''Cannot read properties of undefined'')"
  using assms
  by (simp add: rendered_text_def ActivityTimelineUpdate_def read_identifier_def bind_def
      ActivityTimelineItem_def ActivityUser_def member_def)

lemma inlines_text_Strs:
  "inlines_text [Str a, Expr b, Str c, Expr d, Expr e, Str g]
     = Inr (a @ shown b @ c @ shown d @ shown e @ g)"
  by (simp add: bind_def)

lemma shown_Some: "shown (Some s) = s"
  by (simp add: shown_def)

lemma shown_from_clause:
  "shown (from_clause ov) = (if truthy ov then '' from '' @ shown ov else [])"
  by (cases ov) (simp_all add: from_clause_def truthy_def shown_def)

text \<open>
  C6, as the code has it. For every Update record the sentence starts with the
  \<^verbatim>\<open>ActivityUser\<close> element, and the words after it are
  \<^verbatim>\<open> changed <field> to <value> from <oldValue>.\<close> when \<^verbatim>\<open>data.oldValue\<close> is a non-empty
  string and \<^verbatim>\<open> changed <field> to <value>.\<close> when it is absent or empty; the sentence
  ends with a full stop.
\<close>

theorem update_sentence:
  "\<exists>item rest. ActivityTimelineUpdate (props\<lparr>data := UpdateData f ov v\<rparr>) = Inr item
     \<and> content_inlines (timeline_content item) = ActivityUser_elem (users props) # rest
     \<and> inlines_text rest =
         Inr ('' changed '' @ f @ '' to '' @ shown v
              @ (if truthy ov then '' from '' @ shown ov else []) @ ''.'')"
  by (simp add: ActivityTimelineUpdate_def read_identifier_def bind_def ActivityTimelineItem_def
      inlines_text_Strs shown_from_clause shown_Some del: inlines_text.simps)

text \<open>
  C6 as stated fails: an Update record whose \<^verbatim>\<open>data.oldValue\<close> is present and is the
  empty string renders no \<^verbatim>\<open>from\<close> clause, and the text ends with a full stop.
\<close>

theorem update_sentence_counterexample:
  "data_oldValue (UpdateData ''title'' (Some []) (Some ''Acme'')) = Some []
   \<and> rendered_text (ActivityTimelineUpdate
      \<lparr>id' = ''2'',
       user = \<lparr>name = Some ''Ada'', email = None, user_id = None, avatar = None,
               presence = None, status = None\<rparr>,
       users = Some \<lparr>name = Some ''Ada'', email = None, user_id = None, avatar = None,
               presence = None, status = None\<rparr>,
       type' = ''update'',
       data = UpdateData ''title'' (Some []) (Some ''Acme''),
       date = 0\<rparr>)
     = Inr ''Ada changed title to Acme.''"
  by (simp add: rendered_text_def ActivityTimelineUpdate_def read_identifier_def bind_def
      ActivityTimelineItem_def ActivityUser_def member_def truthy_def shown_def from_clause_def)

text \<open>
  C9 fails on the code for action items: \<^verbatim>\<open>ActivityTimelineAction\<close> raises a
  ReferenceError on a well-formed action record, so neither the anchor
  \<^verbatim>\<open>action-1\<close> nor the link \<^verbatim>\<open>#action-1\<close> is produced.
\<close>

theorem action_item_raises:
  "ActivityTimelineAction
      \<lparr>id' = ''1'',
       user = \<lparr>name = Some ''Ada'', email = None, user_id = None, avatar = None,
               presence = None, status = None\<rparr>,
       users = None,
       type' = ''action'',
       data = ActionData ''created'',
       date = 0\<rparr>
     = Inl (ReferenceError ''user is not defined'')"
  by (simp add: ActivityTimelineAction_raises)

section \<open>Rendering the feed: properties\<close>

lemma render_all_append:
  "render_all (es @ es') =
     bind (render_all es) (\<lambda>ns. bind (render_all es') (\<lambda>ns'. Inr (ns @ ns')))"
proof (induction es)
  case Nil
  show ?case by (cases "render_all es'") (simp_all add: bind_def)
next
  case (Cons e es)
  show ?case
    by (cases "render_element e"; cases "render_all es"; cases "render_all es'")
       (simp_all add: Cons.IH bind_def)
qed

lemma render_item_node:
  assumes "render_item item = Inr n"
  shows "\<not> is_composer_node n"
  using assms by (auto simp add: render_item_def bind_def split: sum.splits)

lemma render_element_node:
  assumes "render_element e = Inr n"
  shows "is_composer_node n = is_composer e"
proof (cases e)
  case (ActivityTimelineAction_elem k p)
  then show ?thesis
    using assms render_item_node by (auto simp add: bind_def split: sum.splits)
next
  case (ActivityTimelineComment_elem k p od)
  then show ?thesis
    using assms render_item_node by (auto simp add: bind_def split: sum.splits)
next
  case (ActivityTimelineUpdate_elem k p)
  then show ?thesis
    using assms render_item_node by (auto simp add: bind_def split: sum.splits)
next
  case (ActivityTimelineAddComment_elem u f)
  then show ?thesis
    using assms by (auto simp add: ActivityTimelineAddComment_def)
qed

lemma render_all_nodes:
  assumes "render_all es = Inr ns"
  shows "map is_composer_node ns = map is_composer es"
  using assms
proof (induction es arbitrary: ns)
  case Nil
  then show ?case by simp
next
  case (Cons e es)
  then show ?case
    by (auto simp add: bind_def render_element_node split: sum.splits)
qed

lemma filter_by_map:
  assumes "map p xs = map q ys"
  shows "length (filter p xs) = length (filter q ys)"
  using assms
proof (induction xs arbitrary: ys)
  case Nil
  then show ?case by simp
next
  case (Cons x xs)
  then obtain y ys' where "ys = y # ys'" by (cases ys) auto
  with Cons show ?case by auto
qed

text \<open>
  Where the rendering of a feed succeeds, it holds the composer exactly once, as the last
  node.
\<close>

lemma rendered_feed_composer_last:
  assumes "render_feed (props\<lparr>activities := Items xs\<rparr>) = Inr ns"
  shows "length (filter is_composer_node ns) = 1 \<and> is_composer_node (last ns)"
proof -
  let ?es = "concat (map (rendered_child \<circ> dispatch (onDeleteComment props)) xs)
          @ [ActivityTimelineAddComment_elem (currentUser props) (onAddComment props)]"
  have r: "render_all ?es = Inr ns"
    using assms by (simp add: render_feed_def ActivityTimeline_children_Items bind_def)
  have m: "map is_composer_node ns = map is_composer ?es"
    using r by (rule render_all_nodes)
  have c: "length (filter is_composer_node ns) = length (filter is_composer ?es)"
    using m by (rule filter_by_map)
  have ne: "ns \<noteq> []"
    using m by auto
  have "is_composer_node (last ns) = last (map is_composer_node ns)"
    using ne by (simp add: last_map)
  also have "\<dots> = last (map is_composer ?es)"
    by (simp only: m)
  also have "\<dots> = True"
    by simp
  finally show ?thesis
    using c by (simp add: dispatched_no_composer)
qed

lemma render_all_action_raises:
  assumes "ActivityTimelineAction_elem k p \<in> set es"
  shows "\<exists>e. render_all es = Inl e"
  using assms
proof (induction es)
  case Nil
  then show ?case by simp
next
  case (Cons x es)
  show ?case
  proof (cases "x = ActivityTimelineAction_elem k p")
    case True
    then show ?thesis
      by (simp add: ActivityTimelineAction_raises bind_def)
  next
    case False
    then obtain e where "render_all es = Inl e"
      using Cons by auto
    then show ?thesis
      by (cases "render_element x") (simp_all add: bind_def)
  qed
qed

text \<open>No feed that holds an action record renders.\<close>

lemma feed_with_action_never_renders:
  assumes "a \<in> set xs" and "type' a = ''action''"
  shows "\<exists>e. render_feed (props\<lparr>activities := Items xs\<rparr>) = Inl e"
proof -
  have "ActivityTimelineAction_elem (id' a) a
      \<in> set (concat (map (rendered_child \<circ> dispatch (onDeleteComment props)) xs))"
    using assms by (auto simp add: dispatch_def intro!: bexI [of _ a])
  then have "\<exists>e. render_all (concat (map (rendered_child \<circ> dispatch (onDeleteComment props)) xs)
          @ [ActivityTimelineAddComment_elem (currentUser props) (onAddComment props)]) = Inl e"
    by (intro render_all_action_raises [of "id' a" a]) simp
  then show ?thesis
    by (simp add: render_feed_def ActivityTimeline_children_Items bind_def)
qed

text \<open>
  C1 fails on the code: rendering the feed of one action record calls
  \<^verbatim>\<open>ActivityTimelineAction\<close>, which raises a ReferenceError, so the rendering ends with
  that exception and produces no composer.
\<close>

theorem feed_with_action_raises:
  "render_feed
     \<lparr>activities = Items [\<lparr>id' = ''1'', user = ada, users = None, type' = ''action'',
                           data = ActionData ''created'', date = 0\<rparr>],
      currentUser = ada, onAddComment = ''add'', onDeleteComment = None\<rparr>
   = Inl (ReferenceError ''user is not defined'')"
  by (simp add: render_feed_def ActivityTimeline_children_def ActivityTimeline_def
      optional_map_def rendered_children_def dispatch_def bind_def ActivityTimelineAction_raises)

lemma empty_feed_renders:
  "render_feed (props\<lparr>activities := Items []\<rparr>)
     = Inr [Composer_node (PersonaAvatar (avatar (currentUser props)) (name (currentUser props))
              ''xs'' (presence (currentUser props))) (onAddComment props)]"
  by (simp add: render_feed_def ActivityTimeline_children_Items bind_def
      ActivityTimelineAddComment_def)

section \<open>The deletion flow: properties\<close>






lemma select_then_confirm:
  "onDelete_calls (ui_run [Select \<lparr>label = l, onClick = Modals_confirm d\<rparr>, Confirm] w)
     = onDelete_calls (run_thunk (onConfirm d) w)"
  by (simp add: ui_run_def modals_confirm_def confirm_dialog_def)



text \<open>
  C8, as the code has it. A comment item offers the \<^verbatim>\<open>Delete\<close> action whether or not
  \<^verbatim>\<open>onDelete\<close> is supplied; when it is not supplied, selecting the action and
  confirming the prompt calls nothing.
\<close>

theorem delete_item_always_offered:
  assumes "users props = Some u"
  shows "offered_actions (ActivityTimelineComment props od) = Inr [''Delete'']
     \<and> ActivityTimelineComment props None
         = Inr \<lparr>anchor = Some (''comment-'' @ id' props),
              timeline_icon = PersonaAvatar (avatar u) (name u) ''xs'' (presence u),
              timeline_icon_mt = ''2px'',
              timeline_content =
                CommentCard (Some u) (ActivityLink (''#action-'' @ id' props) (date props))
                  [delete_item None (id' props)] (data_comment (data props))\<rparr>
     \<and> onDelete_calls (ui_run [Select (delete_item None (id' props)), Confirm] w)
         = onDelete_calls w"
  using assms
  by (simp add: offered_actions_def bind_def ActivityTimelineComment_users delete_item_def
      select_then_confirm)

theorem delete_item_always_offered_witness:
  "users comment_3 = Some ada
   \<and> offered_actions (ActivityTimelineComment comment_3 (Some ''del'')) = Inr [''Delete'']
   \<and> offered_actions (ActivityTimelineComment comment_3 None) = Inr [''Delete'']
   \<and> onDelete_calls (ui_run [Select (delete_item None ''3''), Confirm] idle) = []"
proof -
  have h: "users comment_3 = Some ada"
    by (simp add: comment_3_def)
  show ?thesis
    using h delete_item_always_offered [OF h, of "Some ''del''" idle]
      delete_item_always_offered [OF h, of None idle]
    by (simp add: comment_3_def idle_def)
qed

text \<open>
  C8 as stated fails: a comment rendered without \<^verbatim>\<open>onDelete\<close> offers \<^verbatim>\<open>Delete\<close>.
\<close>

theorem delete_item_counterexample:
  "offered_actions (ActivityTimelineComment
      \<lparr>id' = ''3'', user = ada, users = Some ada, type' = ''comment'',
       data = CommentData ''<p>hello</p>'', date = 0\<rparr> None) = Inr [''Delete'']"
  by (simp add: offered_actions_def bind_def ActivityTimelineComment_users [of _ ada])

section \<open>The composer: properties\<close>

lemma composer_run_calls:
  "onSubmit_calls (composer_run f evs s) = onSubmit_calls s @ map (Pair f) (submitted evs)"
  unfolding composer_run_def
proof (induction evs arbitrary: s)
  case Nil
  show ?case by simp
next
  case (Cons e evs)
  show ?case
  proof (cases e)
    case (Submit d)
    then show ?thesis
      by (simp add: Cons.IH handler_begin_def)
  next
    case (Settle r)
    then show ?thesis
      by (cases r) (simp_all add: Cons.IH handler_settle_def)
  qed
qed

lemma composer_run_awaiting:
  "awaiting (composer_run f (map Submit ds) s) = awaiting s + length ds"
  unfolding composer_run_def
  by (induction ds arbitrary: s) (simp_all add: handler_begin_def)

lemma submitted_map_Submit: "submitted (map Submit ds) = ds"
  by (induction ds) simp_all

text \<open>
  C3. With the form attached, a submission whose \<^verbatim>\<open>onSubmit\<close> promise resolves leaves
  the empty draft (no text, no files); one whose promise rejects leaves the draft as it was
  before the submission.
\<close>

theorem draft_after_submission:
  assumes "formRef s = Some fm"
  shows "draft (handler_settle Resolves (handler_begin f d s)) = Some empty_draft
     \<and> draft (handler_settle (Rejects e) (handler_begin f d s)) = draft s"
  using assms by (simp add: draft_def handler_settle_def handler_begin_def reset_def)

theorem draft_after_submission_witness:
  "formRef composing = Some \<lparr>form_values = \<lparr>files = Some [''a.png''], comment = ''hello''\<rparr>\<rparr>
   \<and> draft (handler_settle Resolves
        (handler_begin ''add'' \<lparr>files = Some [''a.png''], comment = ''hello''\<rparr> composing))
       = Some \<lparr>files = None, comment = []\<rparr>
   \<and> draft (handler_settle (Rejects ''offline'')
        (handler_begin ''add'' \<lparr>files = Some [''a.png''], comment = ''hello''\<rparr> composing))
       = Some \<lparr>files = Some [''a.png''], comment = ''hello''\<rparr>"
proof -
  have h: "formRef composing = Some \<lparr>form_values = \<lparr>files = Some [''a.png''], comment = ''hello''\<rparr>\<rparr>"
    by (simp add: composing_def)
  show ?thesis
    using h draft_after_submission [OF h, of "''add''"
        "\<lparr>files = Some [''a.png''], comment = ''hello''\<rparr>" "''offline''"]
    by (simp add: empty_draft_def draft_def)
qed

text \<open>
  The handler by itself calls \<^verbatim>\<open>onSubmit\<close> once on every invocation, whatever is
  still awaiting; it is the submit button that keeps a second submit away from it.
\<close>

lemma handler_calls_once_per_invocation:
  "length (onSubmit_calls (composer_run f evs s))
     = length (onSubmit_calls s) + length (submitted evs)
   \<and> awaiting (composer_run f (map Submit ds) s) = awaiting s + length ds
   \<and> length (onSubmit_calls (composer_run f (map Submit ds) s))
     = length (onSubmit_calls s) + length ds"
  by (simp add: composer_run_calls composer_run_awaiting submitted_map_Submit)

text \<open>
  C7, as the code has it. The submit handler passes every draft it is given to
  \<^verbatim>\<open>onSubmit\<close>, once and unchanged; the drafts that reach \<^verbatim>\<open>onSubmit\<close> in a run of
  events are exactly the submitted ones, in order, none filtered out.
\<close>

theorem handler_has_no_blank_guard:
  "onSubmit_calls (handler_begin f d s) = onSubmit_calls s @ [(f, d)]
   \<and> onSubmit_calls (composer_run f evs s) = onSubmit_calls s @ map (Pair f) (submitted evs)"
  by (simp add: composer_run_calls handler_begin_def)

text \<open>
  C7 as stated fails: the handler calls \<^verbatim>\<open>onSubmit\<close> with a draft of two spaces, and
  with the empty draft.
\<close>

theorem blank_draft_counterexample:
  "is_blank (comment \<lparr>files = None, comment = ''  ''\<rparr>)
   \<and> is_blank (comment empty_draft)
   \<and> onSubmit_calls (handler_begin ''add'' \<lparr>files = None, comment = ''  ''\<rparr> mounted)
       = [(''add'', \<lparr>files = None, comment = ''  ''\<rparr>)]
   \<and> onSubmit_calls (handler_begin ''add'' empty_draft mounted) = [(''add'', empty_draft)]"
  by (simp add: is_blank_def empty_draft_def handler_begin_def mounted_def)

section \<open>Submitting from the composer: properties\<close>

lemma user_run_append: "user_run f (xs @ ys) v = user_run f ys (user_run f xs v)"
  by (simp add: user_run_def)

lemma user_run_Cons: "user_run f (e # evs) v = user_run f evs (user_step f v e)"
  by (simp add: user_run_def)

lemma attempt_in_flight:
  assumes "0 < awaiting (handler_state v)" and "is_attempt e"
  shows "user_step f v e = v"
  using assms by (cases e) (simp_all add: SubmitButton_click_def onKeyDown_def split: option.splits)

lemma attempts_in_flight:
  assumes "list_all is_attempt evs" and "0 < awaiting (handler_state v)"
  shows "user_run f evs v = v"
  using assms
proof (induction evs)
  case Nil
  show ?case by (simp add: user_run_def)
next
  case (Cons e evs)
  then show ?case
    by (simp add: user_run_Cons attempt_in_flight)
qed

lemma click_when_idle:
  assumes "awaiting (handler_state v) = 0" and "formRef (handler_state v) = Some fm"
  shows "SubmitButton_click f v
     = v\<lparr>handler_state := handler_begin f (form_values fm) (handler_state v)\<rparr>"
  using assms by (simp add: SubmitButton_click_def)

lemma user_step_in_flight:
  assumes "awaiting (handler_state v) \<le> 1"
  shows "awaiting (handler_state (user_step f v e)) \<le> 1"
proof (cases e)
  case Click
  then show ?thesis
    using assms by (auto simp add: SubmitButton_click_def handler_begin_def split: option.splits)
next
  case (KeyDown k m)
  then show ?thesis
    using assms
    by (auto simp add: onKeyDown_def SubmitButton_click_def handler_begin_def split: option.splits)
next
  case (Settled r)
  then show ?thesis
    using assms by (cases r) (auto simp add: handler_settle_def)
qed

lemma user_run_in_flight:
  assumes "awaiting (handler_state v) \<le> 1"
  shows "awaiting (handler_state (user_run f evs v)) \<le> 1"
  using assms
proof (induction evs arbitrary: v)
  case Nil
  then show ?case by (simp add: user_run_def)
next
  case (Cons e evs)
  have "awaiting (handler_state (user_step f v e)) \<le> 1"
    using Cons.prems by (rule user_step_in_flight)
  then have "awaiting (handler_state (user_run f evs (user_step f v e))) \<le> 1"
    by (rule Cons.IH)
  then show ?case
    by (simp only: user_run_Cons)
qed

text \<open>
  C5. With the composer idle, the form attached and the button mounted, a submit by a
  click or by \<^verbatim>\<open>Enter\<close> with the meta key calls \<^verbatim>\<open>onSubmit\<close> exactly once, with the
  current draft, and leaves one submission in flight. Any further clicks and key presses
  before it settles are no-ops: the calls stay as they are, and nothing was queued, since
  the settlement adds no call either. Whatever the events, at most one submission is in
  flight.
\<close>

theorem single_submission_in_flight:
  assumes "awaiting (handler_state v) = 0"
    and "formRef (handler_state v) = Some fm"
    and "submitRef v = Some b"
    and "first = Click \<or> first = KeyDown ''Enter'' True"
    and "list_all is_attempt evs"
  shows "onSubmit_calls (handler_state (user_run f (first # evs) v))
       = onSubmit_calls (handler_state v) @ [(f, form_values fm)]
     \<and> awaiting (handler_state (user_run f (first # evs) v)) = 1
     \<and> onSubmit_calls (handler_state (user_run f (first # evs @ [Settled r]) v))
       = onSubmit_calls (handler_state v) @ [(f, form_values fm)]
     \<and> awaiting (handler_state (user_run f (first # evs @ [Settled r]) v)) = 0
     \<and> awaiting (handler_state (user_run f any v)) \<le> 1"
proof -
  let ?v1 = "v\<lparr>handler_state := handler_begin f (form_values fm) (handler_state v)\<rparr>"
  have s1: "user_step f v first = ?v1"
    using assms(1-4) by (auto simp add: onKeyDown_def click_when_idle)
  have fl: "0 < awaiting (handler_state ?v1)"
    by (simp add: handler_begin_def)
  have r1: "user_run f (first # evs) v = ?v1"
    using assms(5) fl by (simp add: user_run_Cons s1 attempts_in_flight)
  have r2: "user_run f (first # evs @ [Settled r]) v = user_step f ?v1 (Settled r)"
    using r1 user_run_append [of f "first # evs" "[Settled r]" v]
    by (simp add: user_run_def)
  have "awaiting (handler_state v) \<le> 1"
    using assms(1) by simp
  then have inv: "awaiting (handler_state (user_run f any v)) \<le> 1"
    by (rule user_run_in_flight)
  have a: "onSubmit_calls (handler_state ?v1)
       = onSubmit_calls (handler_state v) @ [(f, form_values fm)]"
    by (simp add: handler_begin_def)
  have b: "awaiting (handler_state ?v1) = 1"
    using assms(1) by (simp add: handler_begin_def)
  have c: "onSubmit_calls (handler_state (user_step f ?v1 (Settled r)))
       = onSubmit_calls (handler_state v) @ [(f, form_values fm)]"
    by (cases r) (simp_all add: handler_begin_def handler_settle_def)
  have d: "awaiting (handler_state (user_step f ?v1 (Settled r))) = 0"
    using assms(1) by (cases r) (simp_all add: handler_begin_def handler_settle_def)
  show ?thesis
    by (simp only: r1 r2 a b c d inv)
qed

theorem single_submission_in_flight_witness:
  "awaiting (handler_state \<lparr>handler_state = composing, submitRef = Some SubmitButton\<rparr>) = 0
   \<and> list_all is_attempt [Click, KeyDown ''Enter'' True]
   \<and> onSubmit_calls (handler_state (user_run ''add''
        [Click, Click, KeyDown ''Enter'' True]
        \<lparr>handler_state = composing, submitRef = Some SubmitButton\<rparr>))
       = [(''add'', \<lparr>files = Some [''a.png''], comment = ''hello''\<rparr>)]
   \<and> onSubmit_calls (handler_state (user_run ''add''
        [Click, Click, KeyDown ''Enter'' True, Settled Resolves]
        \<lparr>handler_state = composing, submitRef = Some SubmitButton\<rparr>))
       = [(''add'', \<lparr>files = Some [''a.png''], comment = ''hello''\<rparr>)]
   \<and> awaiting (handler_state (user_run ''add''
        [Click, Click, KeyDown ''Enter'' True]
        \<lparr>handler_state = composing, submitRef = Some SubmitButton\<rparr>)) = 1
   \<and> onSubmit_calls (handler_state (user_run ''add''
        [KeyDown ''Enter'' True, Click, KeyDown ''Enter'' True]
        \<lparr>handler_state = composing, submitRef = Some SubmitButton\<rparr>))
       = [(''add'', \<lparr>files = Some [''a.png''], comment = ''hello''\<rparr>)]"
proof -
  let ?v = "\<lparr>handler_state = composing, submitRef = Some SubmitButton\<rparr>"
  have h1: "awaiting (handler_state ?v) = 0"
    by (simp add: composing_def)
  have h2: "formRef (handler_state ?v)
      = Some \<lparr>form_values = \<lparr>files = Some [''a.png''], comment = ''hello''\<rparr>\<rparr>"
    by (simp add: composing_def)
  have h3: "submitRef ?v = Some SubmitButton"
    by simp
  have h4: "Click = Click \<or> Click = KeyDown ''Enter'' True"
    by simp
  have h4': "KeyDown ''Enter'' True = Click \<or> KeyDown ''Enter'' True = KeyDown ''Enter'' True"
    by simp
  have h5: "list_all is_attempt [Click, KeyDown ''Enter'' True]"
    by simp
  show ?thesis
    using h1 h5 single_submission_in_flight [OF h1 h2 h3 h4 h5, of "''add''" Resolves "[]"]
      single_submission_in_flight [OF h1 h2 h3 h4' h5, of "''add''" Resolves "[]"]
    by (simp add: composing_def)
qed

end
